theory Spec2Isabelle
  imports Complex_Main
begin

section \<open>Site index equations: a shallow embedding\<close>

text \<open>
  The module \<^verbatim>\<open>site_index_equations.py\<close> holds six functions
  \<^verbatim>\<open>(height, bh_age) -> site_index\<close>. Python is dynamically typed, and what an
  operator does depends on the run-time type of its operands: on two built-in floats
  \<^verbatim>\<open>/\<close> raises \<^verbatim>\<open>ZeroDivisionError\<close> for a zero divisor, while on a
  \<^verbatim>\<open>numpy.float64\<close> or an array it follows IEEE 754 and yields an infinity or a NaN.
  The embedding therefore has three layers:
  \<^item> binary64 numbers with round-to-nearest-even arithmetic (\<open>f64\<close>);
  \<^item> Python values (built-in float, NumPy scalar, one-dimensional NumPy array) with the
    operators dispatching on them, exceptions being values of a sum type;
  \<^item> the six functions, written operator by operator as in the source.

  Arguments are floating-point values; integer arguments are not modelled (an integer
  below \<open>2^53\<close> converts to a float without rounding). NumPy runs in its default error
  state, where a floating-point exception is a warning and not an error.
\<close>

subsection \<open>Binary64 numbers\<close>

text \<open>
  A double is a finite number (a rational; \<open>Fin 0\<close> is \<open>+0.0\<close>), the negative zero,
  an infinity or a NaN.
\<close>

datatype f64 = Fin rat | NegZero | PInf | NInf | NaN

text \<open>The number of binary digits of a positive integer.\<close>

function bitlen :: "int \<Rightarrow> int" where
  "bitlen n = (if n \<le> 0 then 0 else 1 + bitlen (n div 2))"
  by pat_completeness auto
termination
  by (relation "measure nat") auto

declare bitlen.simps [simp del]

definition pow2 :: "int \<Rightarrow> rat" where
  "pow2 e = (if 0 \<le> e then 2 ^ nat e else 1 / 2 ^ nat (- e))"

text \<open>\<open>ilog2 a\<close>, for \<open>0 < a\<close>, is the \<open>e\<close> with \<open>2^e \<le> a < 2^(e+1)\<close>.\<close>

definition ilog2 :: "rat \<Rightarrow> int" where
  "ilog2 a = (if 1 \<le> a then bitlen \<lfloor>a\<rfloor> - 1
              else - bitlen (\<lceil>1 / a\<rceil> - 1))"

text \<open>Rounding to the nearest integer, a tie going to the even one.\<close>

definition rne :: "rat \<Rightarrow> int" where
  "rne q = (let f = \<lfloor>q\<rfloor>; r = q - of_int f
            in if r < 1 / 2 then f
               else if 1 / 2 < r then f + 1
               else if even f then f else f + 1)"

text \<open>
  \<open>round64 q\<close> is the double nearest to \<open>q\<close>: 53 significant bits, exponents from
  \<open>-1022\<close> (gradual underflow below) to \<open>1023\<close> (an infinity above), the sign of a result
  that rounds to zero being the sign of \<open>q\<close>.
\<close>

definition round64 :: "rat \<Rightarrow> f64" where
  "round64 q =
     (if q = 0 then Fin 0
      else let a = \<bar>q\<bar>;
               u = pow2 (max (ilog2 a) (- 1022) - 52);
               r = of_int (rne (a / u)) * u
           in if pow2 1024 \<le> r then (if 0 < q then PInf else NInf)
              else if r = 0 then (if 0 < q then Fin 0 else NegZero)
              else Fin (if 0 < q then r else - r))"

fun is_nan :: "f64 \<Rightarrow> bool" where
  "is_nan NaN = True"
| "is_nan _ = False"

fun is_inf :: "f64 \<Rightarrow> bool" where
  "is_inf PInf = True"
| "is_inf NInf = True"
| "is_inf _ = False"

fun is_finite :: "f64 \<Rightarrow> bool" where
  "is_finite (Fin q) = True"
| "is_finite NegZero = True"
| "is_finite _ = False"

fun is_zero :: "f64 \<Rightarrow> bool" where
  "is_zero (Fin q) = (q = 0)"
| "is_zero NegZero = True"
| "is_zero _ = False"

text \<open>The sign bit (of a NaN it is never looked at) and the value of a finite number.\<close>

fun signbit :: "f64 \<Rightarrow> bool" where
  "signbit (Fin q) = (q < 0)"
| "signbit NegZero = True"
| "signbit NInf = True"
| "signbit _ = False"

fun val :: "f64 \<Rightarrow> rat" where
  "val (Fin q) = q"
| "val _ = 0"

definition zero_of :: "bool \<Rightarrow> f64" where
  "zero_of s = (if s then NegZero else Fin 0)"

definition inf_of :: "bool \<Rightarrow> f64" where
  "inf_of s = (if s then NInf else PInf)"

fun fneg :: "f64 \<Rightarrow> f64" where
  "fneg (Fin q) = (if q = 0 then NegZero else Fin (- q))"
| "fneg NegZero = Fin 0"
| "fneg PInf = NInf"
| "fneg NInf = PInf"
| "fneg NaN = NaN"

text \<open>
  IEEE 754 addition: an infinity absorbs, opposite infinities give NaN, an exact zero sum
  is \<open>+0\<close> unless both operands are \<open>-0\<close>.
\<close>

definition fadd :: "f64 \<Rightarrow> f64 \<Rightarrow> f64" where
  "fadd x y =
     (if is_nan x \<or> is_nan y then NaN
      else if is_inf x then (if is_inf y \<and> signbit x \<noteq> signbit y then NaN else x)
      else if is_inf y then y
      else if is_zero x \<and> is_zero y then zero_of (signbit x \<and> signbit y)
      else if val x + val y = 0 then Fin 0
      else round64 (val x + val y))"

definition fsub :: "f64 \<Rightarrow> f64 \<Rightarrow> f64" where
  "fsub x y = fadd x (fneg y)"

definition fmul :: "f64 \<Rightarrow> f64 \<Rightarrow> f64" where
  "fmul x y =
     (if is_nan x \<or> is_nan y then NaN
      else if is_inf x \<or> is_inf y then
        (if is_zero x \<or> is_zero y then NaN else inf_of (signbit x \<noteq> signbit y))
      else if is_zero x \<or> is_zero y then zero_of (signbit x \<noteq> signbit y)
      else round64 (val x * val y))"

definition fdiv :: "f64 \<Rightarrow> f64 \<Rightarrow> f64" where
  "fdiv x y =
     (if is_nan x \<or> is_nan y then NaN
      else if is_inf x then (if is_inf y then NaN else inf_of (signbit x \<noteq> signbit y))
      else if is_inf y then zero_of (signbit x \<noteq> signbit y)
      else if is_zero y then (if is_zero x then NaN else inf_of (signbit x \<noteq> signbit y))
      else if is_zero x then zero_of (signbit x \<noteq> signbit y)
      else round64 (val x / val y))"

text \<open>\<open>x <= y\<close>: false when an operand is a NaN; the two zeros are equal.\<close>

definition fle :: "f64 \<Rightarrow> f64 \<Rightarrow> bool" where
  "fle x y =
     (if is_nan x \<or> is_nan y then False
      else if x = NInf \<or> y = PInf then True
      else if x = PInf \<or> y = NInf then False
      else val x \<le> val y)"

text \<open>
  A power with a positive integer exponent: the exact power, rounded once, with the
  special values of C99 Annex F (a zero or an infinity keeps its sign for an odd exponent).
  NumPy squares by one multiplication, which is this; for the other exponents the C
  library's \<^verbatim>\<open>pow\<close> is taken to round correctly.
\<close>

definition fpowi :: "f64 \<Rightarrow> nat \<Rightarrow> f64" where
  "fpowi x n =
     (if is_nan x then NaN
      else if is_inf x then inf_of (signbit x \<and> odd n)
      else if is_zero x then zero_of (signbit x \<and> odd n)
      else round64 (val x ^ n))"

subsection \<open>Python values, exceptions and operators\<close>

text \<open>
  A value is a built-in \<^verbatim>\<open>float\<close>, a \<^verbatim>\<open>numpy.float64\<close> scalar (a zero-dimensional
  array behaves like one) or a one-dimensional \<^verbatim>\<open>float64\<close> array. A raised exception
  is the left summand of the result; \<open>KeyError\<close> carries the key that was not found.
\<close>

datatype pyval = PyFloat f64 | NpFloat f64 | NpArray "f64 list"

datatype pyerr = ZeroDivisionError | OverflowError | ValueError | KeyError pyval

type_synonym res = "pyerr + pyval"

text \<open>
  The functions of the C library that NumPy calls are a parameter of the model: their
  last bits are not fixed by any standard, and no property below depends on them.
\<close>

record libm =
  lm_exp :: "f64 \<Rightarrow> f64"
  lm_log :: "f64 \<Rightarrow> f64"
  lm_log10 :: "f64 \<Rightarrow> f64"
  lm_pow :: "f64 \<Rightarrow> f64 \<Rightarrow> f64"

text \<open>
  NumPy broadcasting of two one-dimensional arrays: equal lengths pair up, a length of one
  is stretched, anything else is a \<^verbatim>\<open>ValueError\<close>.
\<close>

definition broadcast :: "(f64 \<Rightarrow> f64 \<Rightarrow> f64) \<Rightarrow> f64 list \<Rightarrow> f64 list \<Rightarrow> res" where
  "broadcast f xs ys =
     (if length xs = length ys then Inr (NpArray (map2 f xs ys))
      else if length xs = 1 then Inr (NpArray (map (f (hd xs)) ys))
      else if length ys = 1 then Inr (NpArray (map (\<lambda>x. f x (hd ys)) xs))
      else Inl ValueError)"

text \<open>
  A binary operator applied to two values: two built-in floats follow Python's rule
  \<open>py\<close>, which may raise; as soon as one operand is a NumPy value the IEEE operation
  \<open>np\<close> is applied, element by element for an array.
\<close>

fun binop :: "(f64 \<Rightarrow> f64 \<Rightarrow> pyerr + f64) \<Rightarrow> (f64 \<Rightarrow> f64 \<Rightarrow> f64) \<Rightarrow> pyval \<Rightarrow> pyval \<Rightarrow> res" where
  "binop py np (PyFloat x) (PyFloat y) =
     (case py x y of Inl e \<Rightarrow> Inl e | Inr z \<Rightarrow> Inr (PyFloat z))"
| "binop py np (PyFloat x) (NpFloat y) = Inr (NpFloat (np x y))"
| "binop py np (NpFloat x) (PyFloat y) = Inr (NpFloat (np x y))"
| "binop py np (NpFloat x) (NpFloat y) = Inr (NpFloat (np x y))"
| "binop py np (PyFloat x) (NpArray ys) = Inr (NpArray (map (np x) ys))"
| "binop py np (NpFloat x) (NpArray ys) = Inr (NpArray (map (np x) ys))"
| "binop py np (NpArray xs) (PyFloat y) = Inr (NpArray (map (\<lambda>x. np x y) xs))"
| "binop py np (NpArray xs) (NpFloat y) = Inr (NpArray (map (\<lambda>x. np x y) xs))"
| "binop py np (NpArray xs) (NpArray ys) = broadcast np xs ys"

text \<open>
  Python evaluates the left operand, then the right one, then applies the operator; the
  first exception ends the evaluation.
\<close>

definition bind2 :: "(pyval \<Rightarrow> pyval \<Rightarrow> res) \<Rightarrow> res \<Rightarrow> res \<Rightarrow> res" where
  "bind2 f a b =
     (case a of Inl e \<Rightarrow> Inl e
      | Inr x \<Rightarrow> (case b of Inl e \<Rightarrow> Inl e | Inr y \<Rightarrow> f x y))"

definition bind1 :: "(pyval \<Rightarrow> res) \<Rightarrow> res \<Rightarrow> res" where
  "bind1 f a = (case a of Inl e \<Rightarrow> Inl e | Inr x \<Rightarrow> f x)"

text \<open>
  \<^verbatim>\<open>float.__truediv__\<close> raises for a zero divisor; \<^verbatim>\<open>+\<close>, \<^verbatim>\<open>-\<close> and \<^verbatim>\<open>*\<close>
  on built-in floats never raise.
\<close>

definition float_truediv :: "f64 \<Rightarrow> f64 \<Rightarrow> pyerr + f64" where
  "float_truediv x y = (if is_zero y then Inl ZeroDivisionError else Inr (fdiv x y))"

definition Add :: "res \<Rightarrow> res \<Rightarrow> res" where
  "Add = bind2 (binop (\<lambda>x y. Inr (fadd x y)) fadd)"

definition Sub :: "res \<Rightarrow> res \<Rightarrow> res" where
  "Sub = bind2 (binop (\<lambda>x y. Inr (fsub x y)) fsub)"

definition Mul :: "res \<Rightarrow> res \<Rightarrow> res" where
  "Mul = bind2 (binop (\<lambda>x y. Inr (fmul x y)) fmul)"

definition Div :: "res \<Rightarrow> res \<Rightarrow> res" where
  "Div = bind2 (binop float_truediv fdiv)"

text \<open>
  \<^verbatim>\<open>x ** n\<close> for a literal positive integer \<open>n\<close>. \<^verbatim>\<open>float.__pow__\<close> raises
  \<^verbatim>\<open>OverflowError\<close> when a finite base gives an infinite result; NumPy returns the
  infinity.
\<close>

fun pow_int :: "nat \<Rightarrow> pyval \<Rightarrow> res" where
  "pow_int n (PyFloat x) =
     (if is_finite x \<and> is_inf (fpowi x n) then Inl OverflowError
      else Inr (PyFloat (fpowi x n)))"
| "pow_int n (NpFloat x) = Inr (NpFloat (fpowi x n))"
| "pow_int n (NpArray xs) = Inr (NpArray (map (\<lambda>x. fpowi x n) xs))"

definition Pow :: "res \<Rightarrow> nat \<Rightarrow> res" where
  "Pow a n = bind1 (pow_int n) a"

text \<open>
  A NumPy function of one argument, or a power with a float exponent whose base is a
  NumPy value: the result is a NumPy value and nothing is raised.
\<close>

fun ufunc :: "(f64 \<Rightarrow> f64) \<Rightarrow> pyval \<Rightarrow> res" where
  "ufunc f (PyFloat x) = Inr (NpFloat (f x))"
| "ufunc f (NpFloat x) = Inr (NpFloat (f x))"
| "ufunc f (NpArray xs) = Inr (NpArray (map f xs))"

definition np_log :: "libm \<Rightarrow> res \<Rightarrow> res" where
  "np_log L = bind1 (ufunc (lm_log L))"

definition np_exp :: "libm \<Rightarrow> res \<Rightarrow> res" where
  "np_exp L = bind1 (ufunc (lm_exp L))"

definition np_log10 :: "libm \<Rightarrow> res \<Rightarrow> res" where
  "np_log10 L = bind1 (ufunc (lm_log10 L))"

text \<open>A float literal is the double nearest to the decimal that is written.\<close>

definition lit :: "rat \<Rightarrow> res" where
  "lit q = Inr (PyFloat (round64 q))"

subsection \<open>Farr 1984: the coefficient table and its lookup\<close>

text \<open>The list of ages, one row for each line of the source.\<close>

definition AGE_LOOKUP :: "int list" where
  "AGE_LOOKUP =
     [10, 11, 12, 13, 14, 15, 16, 17, 18, 19, 20, 21, 22, 23, 24] @
     [25, 26, 27, 28, 29, 30, 31, 32, 33, 34, 35, 36, 37, 38, 39] @
     [40, 41, 42, 43, 44, 45, 46, 47, 48, 49, 50, 51, 52, 53, 54] @
     [55, 56, 57, 58, 59, 60, 61, 62, 63, 64, 65, 66, 67, 68, 69] @
     [70, 71, 72, 73, 74, 75, 76, 77, 78, 79, 80, 81, 82, 83, 84] @
     [85, 86, 87, 88, 89, 90, 91, 92, 93, 94, 95, 96, 97, 98, 99] @
     [100, 101, 102, 103, 104, 105, 106, 107, 108, 109, 110, 111] @
     [112, 113, 114, 115, 116, 117, 118, 119, 120, 121, 122, 123] @
     [124, 125, 126, 127, 128, 129, 130, 131, 132, 133, 134, 135] @
     [136, 137, 138, 139, 140, 141, 142, 143, 144, 145, 146, 147] @
     [148, 149, 150]"

definition A2_LOOKUP :: "rat list" where
  "A2_LOOKUP =
    [4322 / 100, 42069 / 1000, 40753 / 1000, 39327 / 1000, 37827 / 1000, 36279 / 1000,
     34705 / 1000, 3312 / 100, 31536 / 1000, 29963 / 1000, 28408 / 1000, 26879 / 1000,
     2538 / 100, 23914 / 1000, 22486 / 1000, 21098 / 1000, 19751 / 1000, 18448 / 1000,
     17189 / 1000, 15975 / 1000, 14806 / 1000, 13682 / 1000, 12603 / 1000, 11569 / 1000,
     1058 / 100, 9634 / 1000, 8731 / 1000, 787 / 100, 705 / 100, 6271 / 1000, 553 / 100,
     4826 / 1000, 416 / 100, 3529 / 1000, 2932 / 1000, 2368 / 1000, 1836 / 1000,
     1334 / 1000, 862 / 1000, 418 / 1000, 0, - (391 / 1000), - (758 / 1000),
     - (1102 / 1000), - (1423 / 1000), - (1723 / 1000), - (2003 / 1000), - (2264 / 1000),
     - (2507 / 1000), - (2732 / 1000), - (2942 / 1000), - (3136 / 1000), - (3316 / 1000),
     - (3482 / 1000), - (3635 / 1000), - (3777 / 1000), - (3908 / 1000), - (4028 / 1000),
     - (4138 / 1000), - (4239 / 1000), - (4332 / 1000), - (4418 / 1000), - (4496 / 1000),
     - (4567 / 1000), - (4633 / 1000), - (4692 / 1000), - (4747 / 1000), - (4798 / 1000),
     - (4844 / 1000), - (4886 / 1000), - (4925 / 1000), - (4961 / 1000), - (4995 / 1000),
     - (5026 / 1000), - (5056 / 1000), - (5083 / 1000), - (511 / 100), - (5135 / 1000),
     - (5159 / 1000), - (5182 / 1000), - (5205 / 1000), - (5228 / 1000), - (525 / 100),
     - (5273 / 1000), - (5295 / 1000), - (5318 / 1000), - (5341 / 1000), - (5364 / 1000),
     - (5388 / 1000), - (5412 / 1000), - (5437 / 1000), - (5463 / 1000), - (5489 / 1000),
     - (5515 / 1000), - (5543 / 1000), - (557 / 100), - (5598 / 1000), - (5627 / 1000),
     - (5656 / 1000), - (5685 / 1000), - (5714 / 1000), - (5743 / 1000), - (5772 / 1000),
     - (5801 / 1000), - (583 / 100), - (5858 / 1000), - (5885 / 1000), - (5912 / 1000),
     - (5937 / 1000), - (5961 / 1000), - (5984 / 1000), - (6005 / 1000), - (6024 / 1000),
     - (6041 / 1000), - (6055 / 1000), - (6067 / 1000), - (6075 / 1000), - (6081 / 1000),
     - (6082 / 1000), - (608 / 100), - (6073 / 1000), - (6062 / 1000), - (6046 / 1000),
     - (6024 / 1000), - (5997 / 1000), - (5964 / 1000), - (5925 / 1000), - (5878 / 1000),
     - (5825 / 1000), - (5764 / 1000), - (5694 / 1000), - (5617 / 1000), - (553 / 100),
     - (5435 / 1000), - (5329 / 1000), - (5213 / 1000), - (5087 / 1000), - (495 / 100),
     - (4801 / 1000), - (464 / 100), - (4467 / 1000)]"

definition B2_LOOKUP :: "rat list" where
  "B2_LOOKUP =
    [233 / 100, 2143 / 1000, 1998 / 1000, 1884 / 1000, 1792 / 1000, 1716 / 1000,
     1652 / 1000, 1598 / 1000, 1551 / 1000, 151 / 100, 1474 / 1000, 1441 / 1000,
     1412 / 1000, 1385 / 1000, 136 / 100, 1338 / 1000, 1316 / 1000, 1296 / 1000,
     1278 / 1000, 126 / 100, 1243 / 1000, 1227 / 1000, 1211 / 1000, 1197 / 1000,
     1182 / 1000, 1169 / 1000, 1155 / 1000, 1142 / 1000, 113 / 100, 1117 / 1000,
     1105 / 1000, 1094 / 1000, 1082 / 1000, 1071 / 1000, 106 / 100, 105 / 100, 1039 / 1000,
     1029 / 1000, 1019 / 1000, 101 / 100, 1, 991 / 1000, 982 / 1000, 973 / 1000,
     964 / 1000, 955 / 1000, 947 / 1000, 939 / 1000, 93 / 100, 923 / 1000, 916 / 1000,
     907 / 1000, 9 / 10, 893 / 1000, 885 / 1000, 878 / 1000, 872 / 1000, 865 / 1000,
     858 / 1000, 852 / 1000, 846 / 1000, 84 / 100, 834 / 1000, 828 / 1000, 822 / 1000,
     817 / 1000, 811 / 1000, 806 / 1000, 801 / 1000, 796 / 1000, 791 / 1000, 786 / 1000,
     781 / 1000, 777 / 1000, 772 / 1000, 768 / 1000, 764 / 1000, 76 / 100, 756 / 1000,
     752 / 1000, 748 / 1000, 744 / 1000, 741 / 1000, 737 / 1000, 734 / 1000, 73 / 100,
     727 / 1000, 724 / 1000, 721 / 1000, 718 / 1000, 715 / 1000, 712 / 1000, 709 / 1000,
     707 / 1000, 704 / 1000, 702 / 1000, 699 / 1000, 697 / 1000, 694 / 1000, 692 / 1000,
     69 / 100, 688 / 1000, 686 / 1000, 684 / 1000, 682 / 1000, 68 / 100, 678 / 1000,
     676 / 1000, 674 / 1000, 672 / 1000, 671 / 1000, 669 / 1000, 667 / 1000, 665 / 1000,
     664 / 1000, 662 / 1000, 661 / 1000, 659 / 1000, 657 / 1000, 656 / 1000, 654 / 1000,
     653 / 1000, 651 / 1000, 65 / 100, 648 / 1000, 647 / 1000, 645 / 1000, 643 / 1000,
     642 / 1000, 64 / 100, 639 / 1000, 637 / 1000, 635 / 1000, 634 / 1000, 632 / 1000,
     63 / 100, 628 / 1000, 626 / 1000, 624 / 1000, 622 / 1000, 62 / 100]"

text \<open>
  \<^verbatim>\<open>pd.DataFrame(data={'age': .., 'a2': .., 'b2': ..}).set_index('age')\<close>: the
  constructor raises \<^verbatim>\<open>ValueError\<close> unless the three columns have one length; the
  two coefficient columns hold doubles.
\<close>

type_synonym frame = "(int \<times> f64 \<times> f64) list"

definition coef_rows :: frame where
  "coef_rows = zip AGE_LOOKUP (zip (map round64 A2_LOOKUP) (map round64 B2_LOOKUP))"

definition coefs :: "pyerr + frame" where
  "coefs =
     (if length AGE_LOOKUP = length A2_LOOKUP \<and> length A2_LOOKUP = length B2_LOOKUP
      then Inr coef_rows else Inl ValueError)"

text \<open>
  A float key matches an integer label when it is that integer; a fractional key, an
  infinity or a NaN matches none.
\<close>

fun float_key :: "f64 \<Rightarrow> int option" where
  "float_key (Fin q) = (if q = of_int \<lfloor>q\<rfloor> then Some \<lfloor>q\<rfloor> else None)"
| "float_key NegZero = Some 0"
| "float_key _ = None"

definition rows_of :: "frame \<Rightarrow> f64 \<Rightarrow> (f64 \<times> f64) list" where
  "rows_of df k =
     (case float_key k of None \<Rightarrow> []
      | Some i \<Rightarrow> map snd (filter (\<lambda>r. fst r = i) df))"

text \<open>
  \<^verbatim>\<open>a2, b2 = coefs.loc[bh_age].values\<close>. For a scalar key with one matching row the
  values are that row's two numbers. For an array of keys (or a label that occurs several
  times) the values are a two-dimensional array with one row per match, and the
  assignment unpacks its rows: there must be exactly two of them, and \<open>a2\<close> and
  \<open>b2\<close> are then the first and the second row. A key without a row raises
  \<^verbatim>\<open>KeyError\<close>.
\<close>

definition unpack_rows :: "(f64 \<times> f64) list \<Rightarrow> pyerr + pyval \<times> pyval" where
  "unpack_rows rs =
     (case rs of
        [r1, r2] \<Rightarrow> Inr (NpArray [fst r1, snd r1], NpArray [fst r2, snd r2])
      | _ \<Rightarrow> Inl ValueError)"

definition loc_scalar :: "frame \<Rightarrow> pyval \<Rightarrow> f64 \<Rightarrow> pyerr + pyval \<times> pyval" where
  "loc_scalar df key k =
     (case rows_of df k of
        [] \<Rightarrow> Inl (KeyError key)
      | [r] \<Rightarrow> Inr (NpFloat (fst r), NpFloat (snd r))
      | rs \<Rightarrow> unpack_rows rs)"

fun loc_values :: "frame \<Rightarrow> pyval \<Rightarrow> pyerr + pyval \<times> pyval" where
  "loc_values df (PyFloat k) = loc_scalar df (PyFloat k) k"
| "loc_values df (NpFloat k) = loc_scalar df (NpFloat k) k"
| "loc_values df (NpArray ks) =
     (if \<exists>k \<in> set ks. rows_of df k = []
      then Inl (KeyError (NpArray (filter (\<lambda>k. rows_of df k = []) ks)))
      else unpack_rows (concat (map (rows_of df) ks)))"

text \<open>
  The ages the specification gives the lookup: a whole number of years from 10 to 150.
\<close>

definition farr_domain :: "f64 \<Rightarrow> bool" where
  "farr_domain k \<longleftrightarrow>
     is_finite k \<and> val k = of_int \<lfloor>val k\<rfloor> \<and> 10 \<le> val k \<and> val k \<le> 150"

definition farr1984_ss :: "pyval \<Rightarrow> pyval \<Rightarrow> res" where
  "farr1984_ss height bh_age =
     (case coefs of Inl e \<Rightarrow> Inl e
      | Inr df \<Rightarrow>
          (case loc_values df bh_age of Inl e \<Rightarrow> Inl e
           | Inr (a2, b2) \<Rightarrow>
               Add (Add (lit (45 / 10)) (Inr a2))
                   (Mul (Inr b2) (Sub (Inr height) (lit (45 / 10))))))"

text \<open>
  The formula of the specification, \<open>4.5 + a2 + b2 * (height - 4.5)\<close>, in binary64
  arithmetic (4.5 is a double).
\<close>

definition farr_formula :: "f64 \<Rightarrow> f64 \<Rightarrow> f64 \<Rightarrow> f64" where
  "farr_formula a2 b2 x = fadd (fadd (Fin (9 / 2)) a2) (fmul b2 (fsub x (Fin (9 / 2))))"

subsection \<open>Comparison and selection\<close>

text \<open>
  \<^verbatim>\<open>bh_age <= 100\<close> is one truth value for a scalar and an array of them for an
  array.
\<close>

datatype pycond = PyBool bool | NpBools "bool list"

fun le_lit :: "pyval \<Rightarrow> f64 \<Rightarrow> pycond" where
  "le_lit (PyFloat x) c = PyBool (fle x c)"
| "le_lit (NpFloat x) c = PyBool (fle x c)"
| "le_lit (NpArray xs) c = NpBools (map (\<lambda>x. fle x c) xs)"

text \<open>
  \<^verbatim>\<open>np.where(cond, x, y)\<close>. Python evaluates both \<open>x\<close> and \<open>y\<close> before the call,
  so an exception in either is raised whatever the condition. The three arguments are
  broadcast to one shape (a scalar has none, written \<open>None\<close>) and the choice is made
  element by element.
\<close>

fun shape :: "pyval \<Rightarrow> nat option" where
  "shape (PyFloat x) = None"
| "shape (NpFloat x) = None"
| "shape (NpArray xs) = Some (length xs)"

fun cshape :: "pycond \<Rightarrow> nat option" where
  "cshape (PyBool b) = None"
| "cshape (NpBools bs) = Some (length bs)"

fun bshape :: "nat option \<Rightarrow> nat option \<Rightarrow> nat option option" where
  "bshape None s = Some s"
| "bshape (Some m) None = Some (Some m)"
| "bshape (Some m) (Some n) =
     (if m = n then Some (Some m) else if m = 1 then Some (Some n)
      else if n = 1 then Some (Some m) else None)"

fun item :: "pyval \<Rightarrow> nat \<Rightarrow> f64" where
  "item (PyFloat x) i = x"
| "item (NpFloat x) i = x"
| "item (NpArray xs) i = (if length xs = 1 then hd xs else xs ! i)"

fun citem :: "pycond \<Rightarrow> nat \<Rightarrow> bool" where
  "citem (PyBool b) i = b"
| "citem (NpBools bs) i = (if length bs = 1 then hd bs else bs ! i)"

definition where3 :: "pycond \<Rightarrow> pyval \<Rightarrow> pyval \<Rightarrow> res" where
  "where3 c x y =
     (case bshape (cshape c) (shape x) of
        None \<Rightarrow> Inl ValueError
      | Some s \<Rightarrow>
          (case bshape s (shape y) of
             None \<Rightarrow> Inl ValueError
           | Some None \<Rightarrow> Inr (NpFloat (if citem c 0 then item x 0 else item y 0))
           | Some (Some n) \<Rightarrow>
               Inr (NpArray (map (\<lambda>i. if citem c i then item x i else item y i) [0..<n]))))"

definition np_where :: "pycond \<Rightarrow> res \<Rightarrow> res \<Rightarrow> res" where
  "np_where c = bind2 (where3 c)"

text \<open>
  \<^verbatim>\<open>x ** 0.80\<close>: the base is the value of \<^verbatim>\<open>np.log10(bh_age) - 2.0\<close>, always a
  NumPy value, so this is NumPy's power.
\<close>

definition Powf :: "libm \<Rightarrow> res \<Rightarrow> rat \<Rightarrow> res" where
  "Powf L a q = bind1 (ufunc (\<lambda>x. lm_pow L x (round64 q))) a"

subsection \<open>The five closed-form equations\<close>

text \<open>
  Each definition follows the source expression operator by operator, with Python's
  precedence: \<^verbatim>\<open>**\<close> binds tighter than \<^verbatim>\<open>*\<close> and \<^verbatim>\<open>/\<close>, which associate to
  the left, as do \<^verbatim>\<open>+\<close> and \<^verbatim>\<open>-\<close>. An integer literal meets a float in every
  operation and is written as the float it converts to.
\<close>

definition king1966_df :: "pyval \<Rightarrow> pyval \<Rightarrow> res" where
  "king1966_df height bh_age =
     Add (lit (45 / 10))
       (Div (lit 2500)
         (Div
           (Div (Pow (Inr bh_age) 2)
             (Add
               (Sub (Add (Sub (Inr height) (lit (45 / 10))) (lit (954038 / 1000000)))
                    (Mul (lit (558178 / 10000000)) (Inr bh_age)))
               (Mul (lit (733819 / 1000000000)) (Pow (Inr bh_age) 2))))
           (Add
             (Add (lit (109757 / 1000000)) (Mul (lit (792236 / 100000000)) (Inr bh_age)))
             (Mul (lit (197693 / 1000000000)) (Pow (Inr bh_age) 2)))))"

definition cochran_x1 :: "res \<Rightarrow> res" where
  "cochran_x1 l =
     Add
       (Sub
         (Add (Sub (lit (38886 / 10000)) (Mul (lit (18017 / 10000)) l))
              (Mul (lit (2105 / 10000)) (Pow l 2)))
         (Mul (lit (2885 / 10 ^ 10)) (Pow l 9)))
       (Mul (lit (1187 / 10 ^ 21)) (Pow l 24))"

definition cochran_x2 :: "res \<Rightarrow> res" where
  "cochran_x2 l =
     Sub
       (Add
         (Sub
           (Add (Add (lit (- (30935 / 100000))) (Mul (lit (12383 / 10000)) l))
                (Mul (lit (1762 / 1000000)) (Pow l 4)))
           (Mul (lit (54 / 10 ^ 7)) (Pow l 9)))
         (Mul (lit (2046 / 10 ^ 10)) (Pow l 11)))
       (Mul (lit (404 / 10 ^ 15)) (Pow l 18))"

definition cochran1979_gf :: "libm \<Rightarrow> pyval \<Rightarrow> pyval \<Rightarrow> res" where
  "cochran1979_gf L height bh_age =
     (let x1 = cochran_x1 (np_log L (Inr bh_age));
          x2 = cochran_x2 (np_log L (Inr bh_age))
      in Add
           (Sub (Mul (Sub (Inr height) (lit (45 / 10))) (np_exp L x1))
                (Mul (np_exp L x1) (np_exp L x2)))
           (lit (8943 / 100)))"

definition wiley1978_wh :: "pyval \<Rightarrow> pyval \<Rightarrow> res" where
  "wiley1978_wh height bh_age =
     Mul (lit 2500)
       (Div
         (Mul (Sub (Inr height) (lit (45 / 10)))
              (Add (Add (lit (1394 / 10000)) (Mul (lit (137 / 10000)) (Inr bh_age)))
                   (Mul (lit (7 / 100000)) (Pow (Inr bh_age) 2))))
         (Sub (Pow (Inr bh_age) 2)
              (Mul (Sub (Inr height) (lit (45 / 10)))
                   (Add (Sub (lit (- (17307 / 10000))) (Mul (lit (616 / 10000)) (Inr bh_age)))
                        (Mul (lit (192 / 100000)) (Pow (Inr bh_age) 2))))))"

definition harrington_a :: "res \<Rightarrow> res" where
  "harrington_a age =
     Sub
       (Add (Sub (lit (541850 / 10000)) (Mul (lit (461694 / 100000)) age))
            (Mul (lit (11065 / 100000)) (Pow age 2)))
       (Mul (lit (7633 / 10000000)) (Pow age 3))"

definition harrington_b :: "res \<Rightarrow> res" where
  "harrington_b age =
     Add (Sub (lit (125934 / 100000)) (Mul (lit (12989 / 1000000)) age))
         (Mul (lit (35220 / 10000)) (Pow (Div (lit 1) age) 3))"

definition harrington1986_ra :: "pyval \<Rightarrow> pyval \<Rightarrow> res" where
  "harrington1986_ra height bh_age =
     (let age = Add (Inr bh_age) (lit 1)
      in Add (harrington_a age) (Mul (harrington_b age) (Inr height)))"

definition curtis_a :: "libm \<Rightarrow> pyval \<Rightarrow> res" where
  "curtis_a L bh_age =
     np_where (le_lit bh_age (round64 100))
       (Mul (lit (10006 / 1000000)) (Pow (Sub (lit 100) (Inr bh_age)) 2))
       (Mul (lit (766772 / 100000))
            (np_exp L (Mul (lit (95 / 100))
                           (Pow (Sub (Div (lit 100) (Inr bh_age)) (lit 100)) 2))))"

definition curtis_b :: "libm \<Rightarrow> pyval \<Rightarrow> res" where
  "curtis_b L bh_age =
     np_where (le_lit bh_age (round64 100))
       (Add (Add (lit (10 / 10)) (Mul (lit (549779 / 100000000)) (Sub (lit 100) (Inr bh_age))))
            (Mul (lit (146842 / 10 ^ 19)) (Pow (Sub (lit 100) (Inr bh_age)) 7)))
       (Sub (lit (10 / 10))
            (Mul (lit (730948 / 1000000))
                 (Powf L (Sub (np_log10 L (Inr bh_age)) (lit (20 / 10))) (80 / 100))))"

definition curtis1974_df :: "libm \<Rightarrow> pyval \<Rightarrow> pyval \<Rightarrow> res" where
  "curtis1974_df L height bh_age =
     Add (Add (curtis_a L bh_age)
              (Mul (curtis_b L bh_age) (Sub (Inr height) (lit (45 / 10)))))
         (lit (45 / 10))"

subsection \<open>The formulas of the specification\<close>

text \<open>
  The formulas as the specification writes them, on doubles: every constant is the
  double nearest to the decimal, every operation rounds once, a quotient \<open>a / b / c\<close> is
  \<open>(a / b) / c\<close>. The theorems below relate the Python functions to them.
\<close>

definition king_d1 :: "f64 \<Rightarrow> f64 \<Rightarrow> f64" where
  "king_d1 h a =
     fadd
       (fsub (fadd (fsub h (round64 (45 / 10))) (round64 (954038 / 1000000)))
             (fmul (round64 (558178 / 10000000)) a))
       (fmul (round64 (733819 / 1000000000)) (fpowi a 2))"

definition king_d2 :: "f64 \<Rightarrow> f64" where
  "king_d2 a =
     fadd (fadd (round64 (109757 / 1000000)) (fmul (round64 (792236 / 100000000)) a))
          (fmul (round64 (197693 / 1000000000)) (fpowi a 2))"

definition king1966_formula :: "f64 \<Rightarrow> f64 \<Rightarrow> f64" where
  "king1966_formula h a =
     fadd (round64 (45 / 10))
          (fdiv (round64 2500) (fdiv (fdiv (fpowi a 2) (king_d1 h a)) (king_d2 a)))"

definition cochran_poly1 :: "f64 \<Rightarrow> f64" where
  "cochran_poly1 l =
     fadd
       (fsub
         (fadd (fsub (round64 (38886 / 10000)) (fmul (round64 (18017 / 10000)) l))
               (fmul (round64 (2105 / 10000)) (fpowi l 2)))
         (fmul (round64 (2885 / 10 ^ 10)) (fpowi l 9)))
       (fmul (round64 (1187 / 10 ^ 21)) (fpowi l 24))"

definition cochran_poly2 :: "f64 \<Rightarrow> f64" where
  "cochran_poly2 l =
     fsub
       (fadd
         (fsub
           (fadd (fadd (round64 (- (30935 / 100000))) (fmul (round64 (12383 / 10000)) l))
                 (fmul (round64 (1762 / 1000000)) (fpowi l 4)))
           (fmul (round64 (54 / 10 ^ 7)) (fpowi l 9)))
         (fmul (round64 (2046 / 10 ^ 10)) (fpowi l 11)))
       (fmul (round64 (404 / 10 ^ 15)) (fpowi l 18))"





definition cochran1979_formula :: "libm \<Rightarrow> f64 \<Rightarrow> f64 \<Rightarrow> f64" where
  "cochran1979_formula L h a =
     (let x1 = cochran_poly1 (lm_log L a); x2 = cochran_poly2 (lm_log L a)
      in fadd
           (fsub (fmul (fsub h (round64 (45 / 10))) (lm_exp L x1))
                 (fmul (lm_exp L x1) (lm_exp L x2)))
           (round64 (8943 / 100)))"

definition wiley_den :: "f64 \<Rightarrow> f64 \<Rightarrow> f64" where
  "wiley_den h a =
     fsub (fpowi a 2)
          (fmul (fsub h (round64 (45 / 10)))
                (fadd (fsub (round64 (- (17307 / 10000))) (fmul (round64 (616 / 10000)) a))
                      (fmul (round64 (192 / 100000)) (fpowi a 2))))"

definition wiley1978_formula :: "f64 \<Rightarrow> f64 \<Rightarrow> f64" where
  "wiley1978_formula h a =
     fmul (round64 2500)
       (fdiv
         (fmul (fsub h (round64 (45 / 10)))
               (fadd (fadd (round64 (1394 / 10000)) (fmul (round64 (137 / 10000)) a))
                     (fmul (round64 (7 / 100000)) (fpowi a 2))))
         (wiley_den h a))"

definition harrington_poly_a :: "f64 \<Rightarrow> f64" where
  "harrington_poly_a t =
     fsub
       (fadd (fsub (round64 (541850 / 10000)) (fmul (round64 (461694 / 100000)) t))
             (fmul (round64 (11065 / 100000)) (fpowi t 2)))
       (fmul (round64 (7633 / 10000000)) (fpowi t 3))"

definition harrington_poly_b :: "f64 \<Rightarrow> f64" where
  "harrington_poly_b t =
     fadd (fsub (round64 (125934 / 100000)) (fmul (round64 (12989 / 1000000)) t))
          (fmul (round64 (35220 / 10000)) (fpowi (fdiv (round64 1) t) 3))"

definition harrington1986_formula :: "f64 \<Rightarrow> f64 \<Rightarrow> f64" where
  "harrington1986_formula h a =
     (let t = fadd a (round64 1)
      in fadd (harrington_poly_a t) (fmul (harrington_poly_b t) h))"

definition curtis_young_a :: "f64 \<Rightarrow> f64" where
  "curtis_young_a a = fmul (round64 (10006 / 1000000)) (fpowi (fsub (round64 100) a) 2)"

definition curtis_young_b :: "f64 \<Rightarrow> f64" where
  "curtis_young_b a =
     fadd (fadd (round64 (10 / 10))
                (fmul (round64 (549779 / 100000000)) (fsub (round64 100) a)))
          (fmul (round64 (146842 / 10 ^ 19)) (fpowi (fsub (round64 100) a) 7))"

definition curtis_old_a :: "libm \<Rightarrow> f64 \<Rightarrow> f64" where
  "curtis_old_a L a =
     fmul (round64 (766772 / 100000))
          (lm_exp L (fmul (round64 (95 / 100))
                          (fpowi (fsub (fdiv (round64 100) a) (round64 100)) 2)))"

definition curtis_old_b :: "libm \<Rightarrow> f64 \<Rightarrow> f64" where
  "curtis_old_b L a =
     fsub (round64 (10 / 10))
          (fmul (round64 (730948 / 1000000))
                (lm_pow L (fsub (lm_log10 L a) (round64 (20 / 10))) (round64 (80 / 100))))"

definition curtis1974_formula :: "libm \<Rightarrow> f64 \<Rightarrow> f64 \<Rightarrow> f64" where
  "curtis1974_formula L h a =
     (let ca = (if fle a (round64 100) then curtis_young_a a else curtis_old_a L a);
          cb = (if fle a (round64 100) then curtis_young_b a else curtis_old_b L a)
      in fadd (fadd ca (fmul cb (fsub h (round64 (45 / 10))))) (round64 (45 / 10)))"

section \<open>Properties\<close>

subsection \<open>Rounding\<close>



lemma bitlen_eq: "2 ^ k \<le> n \<Longrightarrow> n < 2 ^ Suc k \<Longrightarrow> bitlen n = int k + 1"
proof (induction k arbitrary: n)
  case 0
  then have "n = 1" by simp
  then show ?case by (simp add: bitlen.simps)
next
  case (Suc k)
  have pos: "0 < n" using Suc.prems(1) by (smt (verit) zero_less_power)
  have "2 ^ k \<le> n div 2" using Suc.prems(1) by simp
  moreover have "n div 2 < 2 ^ Suc k" using Suc.prems(2) by simp
  ultimately have "bitlen (n div 2) = int k + 1" by (rule Suc.IH)
  with pos show ?case by (subst bitlen.simps) simp
qed

lemma pow2_pos: "0 < pow2 e" by (simp add: pow2_def)

lemma pow2_Suc: "pow2 (e + 1) = 2 * pow2 e"
proof (cases "0 \<le> e")
  case True
  then show ?thesis by (simp add: pow2_def nat_add_distrib)
next
  case False
  then have "nat (- e) = Suc (nat (- (e + 1)))" by simp
  with False show ?thesis by (simp add: pow2_def)
qed


lemma ilog2_eq:
  assumes "pow2 e \<le> a" and "a < pow2 (e + 1)"
  shows "ilog2 a = e"
proof (cases "0 \<le> e")
  case True
  define k where "k = nat e"
  have e: "e = int k" using True by (simp add: k_def)
  have lo: "(2::rat) ^ k \<le> a" using assms(1) by (simp add: pow2_def e)
  have hi: "a < (2::rat) ^ Suc k" using assms(2) by (simp add: pow2_def e nat_add_distrib)
  have "(1::rat) \<le> 2 ^ k" by simp
  with lo have one: "1 \<le> a" by linarith
  have "of_int (2 ^ k) \<le> a" using lo by simp
  then have l: "2 ^ k \<le> \<lfloor>a\<rfloor>" by (simp only: le_floor_iff)
  have "a < of_int (2 ^ Suc k)" using hi by simp
  then have h: "\<lfloor>a\<rfloor> < 2 ^ Suc k" by (simp only: floor_less_iff)
  from l h have "bitlen \<lfloor>a\<rfloor> = int k + 1" by (rule bitlen_eq)
  with one show ?thesis by (simp add: ilog2_def e)
next
  case False
  define k where "k = nat (- (e + 1))"
  have e: "e = - int k - 1" using False by (simp add: k_def)
  have ne: "nat (- e) = Suc k" using False by (simp add: k_def)
  have lo: "1 / (2::rat) ^ Suc k \<le> a" using assms(1) False by (simp add: pow2_def ne)
  have hi: "a < 1 / (2::rat) ^ k"
  proof (cases "k = 0")
    case True
    then have "e + 1 = 0" using e by simp
    then show ?thesis using assms(2) True by (simp add: pow2_def)
  next
    case False
    then have "\<not> 0 \<le> e + 1" using e by simp
    moreover have "nat (- (e + 1)) = k" by (simp add: k_def)
    ultimately show ?thesis using assms(2) by (simp add: pow2_def)
  qed
  have apos: "0 < a" using lo by (smt (verit) divide_pos_pos zero_less_power zero_less_numeral zero_less_one order_less_le_trans)
  have "(1::rat) / 2 ^ k \<le> 1" by simp
  with hi have lt1: "\<not> 1 \<le> a" by linarith
  have "(2::rat) ^ k < 1 / a" using hi apos by (simp add: field_simps)
  then have "of_int (2 ^ k) < 1 / a" by simp
  then have l: "2 ^ k < \<lceil>1 / a\<rceil>" by (simp only: less_ceiling_iff)
  have "1 / a \<le> (2::rat) ^ Suc k" using lo apos by (simp add: field_simps)
  then have "1 / a \<le> of_int (2 ^ Suc k)" by simp
  then have h: "\<lceil>1 / a\<rceil> \<le> 2 ^ Suc k" by (simp only: ceiling_le_iff)
  have "bitlen (\<lceil>1 / a\<rceil> - 1) = int k + 1"
    by (rule bitlen_eq) (use l h in linarith)+
  with lt1 show ?thesis by (simp add: ilog2_def e)
qed

lemma rne_near: "\<bar>q - of_int m\<bar> < 1 / 2 \<Longrightarrow> rne q = m"
proof -
  assume a: "\<bar>q - of_int m\<bar> < 1 / 2"
  show ?thesis
  proof (cases "of_int m \<le> q")
    case True
    have "q - of_int m < 1 / 2" using a by (simp only: abs_less_iff)
    then have "q < of_int m + 1" by linarith
    with True have "\<lfloor>q\<rfloor> = m" by (rule floor_unique)
    with a True show ?thesis by (simp add: rne_def Let_def)
  next
    case False
    have b: "- (1 / 2) < q - of_int m" and c: "q - of_int m < 1 / 2"
      using a by (simp_all only: abs_less_iff) linarith+
    have "of_int (m - 1) \<le> q" using b by simp
    moreover have "q < of_int (m - 1) + 1" using False by simp
    ultimately have f: "\<lfloor>q\<rfloor> = m - 1" by (rule floor_unique)
    have "1 / 2 < q - of_int (m - 1)" using b by simp
    with f show ?thesis by (simp add: rne_def Let_def)
  qed
qed

lemma rne_tie: "q = of_int m + 1 / 2 \<Longrightarrow> rne q = (if even m then m else m + 1)"
proof -
  assume a: "q = of_int m + 1 / 2"
  then have "of_int m \<le> q" and "q < of_int m + 1" by simp_all
  then have "\<lfloor>q\<rfloor> = m" by (rule floor_unique)
  with a show ?thesis by (simp add: rne_def Let_def)
qed

lemma round64_pos:
  assumes "pow2 e \<le> a" and "a < pow2 (e + 1)"
    and "u = pow2 (max e (- 1022) - 52)"
    and "\<bar>a / u - of_int m\<bar> < 1 / 2"
    and "0 < m" and "of_int m * u < pow2 1024"
  shows "round64 a = Fin (of_int m * u)"
proof -
  have apos: "0 < a" using assms(1) pow2_pos [of e] by linarith
  have i: "ilog2 a = e" using assms(1,2) by (rule ilog2_eq)
  have r: "rne (a / u) = m" using assms(4) by (rule rne_near)
  have upos: "0 < u" using assms(3) pow2_pos by simp
  have "0 < of_int m * u" using assms(5) upos by simp
  then show ?thesis using apos i r assms(3,6) by (simp add: round64_def Let_def)
qed


lemma round64_neg:
  assumes "pow2 e \<le> a" and "a < pow2 (e + 1)"
    and "u = pow2 (max e (- 1022) - 52)"
    and "\<bar>a / u - of_int m\<bar> < 1 / 2"
    and "0 < m" and "of_int m * u < pow2 1024"
  shows "round64 (- a) = Fin (- (of_int m * u))"
proof -
  have apos: "0 < a" using assms(1) pow2_pos [of e] by linarith
  have i: "ilog2 a = e" using assms(1,2) by (rule ilog2_eq)
  have r: "rne (a / u) = m" using assms(4) by (rule rne_near)
  have upos: "0 < u" using assms(3) pow2_pos by simp
  have p: "0 < of_int m * u" using assms(5) upos by simp
  have n: "\<not> pow2 1024 \<le> of_int m * u" using assms(6) by simp
  have z: "of_int m * u \<noteq> 0" using assms(5) upos by simp
  show ?thesis using apos i r assms(3) n z
    by (simp add: round64_def Let_def del: mult_eq_0_iff)
qed

lemma round64_45: "round64 (9 / 2) = Fin (9 / 2)"
  using round64_pos [of 2 "9 / 2" "1 / 2 ^ 50" 5066549580791808]
  by (simp add: pow2_def)

lemma round64_1: "round64 1 = Fin 1"
  using round64_pos [of 0 1 "1 / 2 ^ 52" "2 ^ 52"]
  by (simp add: pow2_def)

lemma length_tables:
  "length AGE_LOOKUP = 141" "length A2_LOOKUP = 141" "length B2_LOOKUP = 141"
  by (simp_all add: AGE_LOOKUP_def A2_LOOKUP_def B2_LOOKUP_def)

lemma coefs_eq: "coefs = Inr coef_rows"
  by (simp add: coefs_def length_tables)

lemma AGE_LOOKUP_upto: "AGE_LOOKUP = [10..150]"
  unfolding AGE_LOOKUP_def by (simp add: upto.simps)

lemma keys_coef_rows: "map fst coef_rows = [10..150]"
  unfolding coef_rows_def AGE_LOOKUP_upto [symmetric]
  by (rule map_fst_zip) (simp add: length_tables)


lemma filter_key:
  "distinct (map fst df) \<Longrightarrow>
   filter (\<lambda>r. fst r = i) df = (case map_of df i of None \<Rightarrow> [] | Some v \<Rightarrow> [(i, v)])"
proof (induction df)
  case Nil
  then show ?case by simp
next
  case (Cons r df)
  obtain k v where r: "r = (k, v)" by (cases r)
  show ?case
  proof (cases "k = i")
    case True
    then have "i \<notin> fst ` set df" using Cons.prems r by auto
    then have "filter (\<lambda>r. fst r = i) df = []" by (auto simp: filter_empty_conv)
    with True r show ?thesis by simp
  next
    case False
    with Cons r show ?thesis by simp
  qed
qed

lemma distinct_keys: "distinct (map fst coef_rows)"
  by (simp only: keys_coef_rows distinct_upto)

lemma map_of_coef_rows_None: "map_of coef_rows i = None \<longleftrightarrow> \<not> (10 \<le> i \<and> i \<le> 150)"
proof -
  have "map_of coef_rows i = None \<longleftrightarrow> i \<notin> set (map fst coef_rows)"
    by (simp add: map_of_eq_None_iff)
  then show ?thesis by (simp only: keys_coef_rows set_upto) auto
qed

lemma rows_of_coef_rows:
  "rows_of coef_rows k =
     (case float_key k of None \<Rightarrow> []
      | Some i \<Rightarrow> (case map_of coef_rows i of None \<Rightarrow> [] | Some v \<Rightarrow> [v]))"
  by (simp add: rows_of_def filter_key [OF distinct_keys] split: option.splits)

lemma float_key_domain:
  "farr_domain k \<longleftrightarrow> (\<exists>i. float_key k = Some i \<and> 10 \<le> i \<and> i \<le> 150)"
proof (cases k)
  case (Fin q)
  show ?thesis
  proof (cases "q = of_int \<lfloor>q\<rfloor>")
    case True
    then obtain i where q: "q = of_int i" ..
    show ?thesis by (simp add: Fin q farr_domain_def)
  next
    case False
    then show ?thesis by (simp add: Fin farr_domain_def)
  qed
qed (simp_all add: farr_domain_def)


lemma farr_value:
  assumes "float_key k = Some i" and "map_of coef_rows i = Some (a2, b2)"
    and "key = PyFloat k \<or> key = NpFloat k"
  shows "farr1984_ss h key =
           ufunc (\<lambda>x. fadd (fadd (Fin (9 / 2)) a2) (fmul b2 (fsub x (Fin (9 / 2))))) h"
proof -
  have l: "loc_values coef_rows key = Inr (NpFloat a2, NpFloat b2)"
    using assms by (auto simp: loc_scalar_def rows_of_coef_rows)
  show ?thesis
    by (cases h)
      (simp_all add: farr1984_ss_def coefs_eq l Add_def Sub_def Mul_def lit_def bind2_def
        round64_45)
qed

lemma farr_key_error:
  assumes "\<not> farr_domain k" and "key = PyFloat k \<or> key = NpFloat k"
  shows "farr1984_ss h key = Inl (KeyError key)"
proof -
  have "rows_of coef_rows k = []"
  proof (cases "float_key k")
    case None
    then show ?thesis by (simp add: rows_of_coef_rows)
  next
    case (Some i)
    with assms(1) have "\<not> (10 \<le> i \<and> i \<le> 150)" by (simp add: float_key_domain)
    then have "map_of coef_rows i = None" by (simp add: map_of_coef_rows_None)
    with Some show ?thesis by (simp add: rows_of_coef_rows)
  qed
  then have "loc_values coef_rows key = Inl (KeyError key)"
    using assms(2) by (auto simp: loc_scalar_def)
  then show ?thesis by (simp add: farr1984_ss_def coefs_eq)
qed

lemma farr_returns:
  assumes "farr_domain k" and "key = PyFloat k \<or> key = NpFloat k"
  shows "\<exists>v. farr1984_ss h key = Inr v"
proof -
  from assms(1) obtain i where i: "float_key k = Some i" "10 \<le> i \<and> i \<le> 150"
    by (auto simp: float_key_domain)
  then have "map_of coef_rows i \<noteq> None" by (simp add: map_of_coef_rows_None)
  then obtain a2 b2 where "map_of coef_rows i = Some (a2, b2)" by auto
  from farr_value [OF i(1) this assms(2)] show ?thesis by (cases h) simp_all
qed

text \<open>
  Claim C3. With a scalar age, \<open>farr1984_ss\<close> raises \<open>KeyError\<close>, carrying the age it
  was given, exactly when the age is not a whole number from 10 to 150 (9, 151 and 50.5
  all fail); the function raises nothing else and does not replace the failure by a
  value.
\<close>

theorem farr1984_ss_lookup_failure:
  assumes "key = PyFloat k \<or> key = NpFloat k"
  shows "(farr1984_ss h key = Inl (KeyError key) \<longleftrightarrow> \<not> farr_domain k) \<and>
         (\<forall>e. farr1984_ss h key = Inl e \<longrightarrow> e = KeyError key \<and> \<not> farr_domain k)"
proof (cases "farr_domain k")
  case True
  from farr_returns [OF True assms] obtain v where "farr1984_ss h key = Inr v" ..
  with True show ?thesis by simp
next
  case False
  from farr_key_error [OF False assms] have "farr1984_ss h key = Inl (KeyError key)" .
  with False show ?thesis by simp
qed



theorem farr1984_ss_lookup_failure_witness:
  "farr1984_ss (PyFloat (Fin 100)) (PyFloat (Fin 9)) = Inl (KeyError (PyFloat (Fin 9))) \<and>
   farr1984_ss (PyFloat (Fin 100)) (PyFloat (Fin 151)) = Inl (KeyError (PyFloat (Fin 151))) \<and>
   farr1984_ss (PyFloat (Fin 100)) (NpFloat (Fin (101 / 2))) =
     Inl (KeyError (NpFloat (Fin (101 / 2)))) \<and>
   (\<forall>e. farr1984_ss (PyFloat (Fin 100)) (PyFloat (Fin 10)) \<noteq> Inl e)"
proof -
  have f: "\<lfloor>101 / 2 :: rat\<rfloor> = 50" by (rule floor_unique) simp_all
  have a: "\<not> farr_domain (Fin 9)" "\<not> farr_domain (Fin 151)" "\<not> farr_domain (Fin (101 / 2))"
    "farr_domain (Fin 10)"
    by (simp_all add: farr_domain_def f)
  note t1 = farr1984_ss_lookup_failure [OF disjI1, OF refl]
  note t2 = farr1984_ss_lookup_failure [OF disjI2, OF refl]
  have "farr1984_ss (PyFloat (Fin 100)) (PyFloat (Fin 9)) = Inl (KeyError (PyFloat (Fin 9)))"
    using t1 [THEN conjunct1, THEN iffD2, OF a(1)] .
  moreover
  have "farr1984_ss (PyFloat (Fin 100)) (PyFloat (Fin 151)) = Inl (KeyError (PyFloat (Fin 151)))"
    using t1 [THEN conjunct1, THEN iffD2, OF a(2)] .
  moreover
  have "farr1984_ss (PyFloat (Fin 100)) (NpFloat (Fin (101 / 2))) =
          Inl (KeyError (NpFloat (Fin (101 / 2))))"
    using t2 [THEN conjunct1, THEN iffD2, OF a(3)] .
  moreover
  have "\<forall>e. farr1984_ss (PyFloat (Fin 100)) (PyFloat (Fin 10)) \<noteq> Inl e"
    using t1 [THEN conjunct2, of "PyFloat (Fin 100)" "Fin 10"] a(4) by blast
  ultimately show ?thesis by blast
qed

lemma round64_tenth: "round64 (1 / 10) = Fin (3602879701896397 / 36028797018963968)"
  using round64_pos [of "-4" "1 / 10" "1 / 2 ^ 56" 7205759403792794]
  by (simp add: pow2_def)

lemma round64_tenth_minus: "round64 (- (158526706883441459 / 36028797018963968)) = Fin (- (2476979795053773 / 562949953421312))"
  using round64_neg [of "2" "158526706883441459 / 36028797018963968" "1 / 2 ^ 50" 4953959590107546]
  by (simp add: pow2_def)

lemma round64_tenth_minus_idem: "round64 (- (2476979795053773 / 562949953421312)) = Fin (- (2476979795053773 / 562949953421312))"
  using round64_neg [of "2" "2476979795053773 / 562949953421312" "1 / 2 ^ 50" 4953959590107546]
  by (simp add: pow2_def)

lemma round64_tenth_back: "round64 (56294995342131 / 562949953421312) = Fin (56294995342131 / 562949953421312)"
  using round64_pos [of "-4" "56294995342131 / 562949953421312" "1 / 2 ^ 56" 7205759403792768]
  by (simp add: pow2_def)

lemma round64_191_2: "round64 (191 / 2) = Fin (191 / 2)"
  using round64_pos [of "6" "191 / 2" "1 / 2 ^ 46" 6720215068966912]
  by (simp add: pow2_def)

lemma round64_100: "round64 (100) = Fin (100)"
  using round64_pos [of "6" "100" "1 / 2 ^ 46" 7036874417766400]
  by (simp add: pow2_def)

lemma round64_0: "round64 0 = Fin 0"
  by (simp add: round64_def)

lemma coef_50: "map_of coef_rows 50 = Some (Fin 0, Fin 1)"
  by (simp add: coef_rows_def AGE_LOOKUP_def A2_LOOKUP_def B2_LOOKUP_def round64_0 round64_1)

lemma coef_rows_member:
  "(i, ab) \<in> set coef_rows \<longleftrightarrow> map_of coef_rows i = Some ab"
  using distinct_keys by (simp add: map_of_eq_Some_iff)

lemma float_key_of_int: "float_key (Fin (of_int i)) = Some i"
  by simp

subsection \<open>Farr 1984: the table and the formula\<close>

text \<open>
  Claim C4. Every whole age from 10 to 150 has exactly one row \<open>(a2, b2)\<close> in the
  coefficient table and no other age has one; called with such an age,
  \<open>farr1984_ss\<close> returns \<open>4.5 + a2 + b2 * (height - 4.5)\<close> computed with the row of
  that very age (nothing is interpolated).
\<close>

theorem farr1984_ss_table_lookup:
  "(\<forall>i. 10 \<le> i \<and> i \<le> 150 \<longrightarrow> (\<exists>!ab. (i, ab) \<in> set coef_rows)) \<and>
   (\<forall>i ab. (i, ab) \<in> set coef_rows \<longrightarrow> 10 \<le> i \<and> i \<le> 150) \<and>
   (\<forall>i a2 b2 x. (i, a2, b2) \<in> set coef_rows \<longrightarrow>
      farr1984_ss (PyFloat x) (PyFloat (Fin (of_int i))) =
        Inr (NpFloat (farr_formula a2 b2 x)) \<and>
      farr1984_ss (NpFloat x) (NpFloat (Fin (of_int i))) =
        Inr (NpFloat (farr_formula a2 b2 x)))"
proof (intro conjI allI impI)
  fix i :: int
  assume "10 \<le> i \<and> i \<le> 150"
  then have "map_of coef_rows i \<noteq> None" by (simp add: map_of_coef_rows_None)
  then obtain ab where "map_of coef_rows i = Some ab" by auto
  then show "\<exists>!ab. (i, ab) \<in> set coef_rows" by (auto simp: coef_rows_member)
next
  fix i :: int and ab
  assume "(i, ab) \<in> set coef_rows"
  then have "map_of coef_rows i \<noteq> None" by (simp add: coef_rows_member)
  then show "10 \<le> i" and "i \<le> 150" by (simp_all add: map_of_coef_rows_None)
next
  fix i :: int and a2 b2 x
  assume "(i, a2, b2) \<in> set coef_rows"
  then have m: "map_of coef_rows i = Some (a2, b2)" by (simp add: coef_rows_member)
  show "farr1984_ss (PyFloat x) (PyFloat (Fin (of_int i))) =
          Inr (NpFloat (farr_formula a2 b2 x))"
    using farr_value [OF float_key_of_int m disjI1 [OF refl], of "PyFloat x"]
    by (simp add: farr_formula_def)
  show "farr1984_ss (NpFloat x) (NpFloat (Fin (of_int i))) =
          Inr (NpFloat (farr_formula a2 b2 x))"
    using farr_value [OF float_key_of_int m disjI2 [OF refl], of "NpFloat x"]
    by (simp add: farr_formula_def)
qed

theorem farr1984_ss_table_lookup_witness:
  "(\<exists>!ab. (50, ab) \<in> set coef_rows) \<and> (50, Fin 0, Fin 1) \<in> set coef_rows \<and>
   farr1984_ss (PyFloat (Fin 100)) (PyFloat (Fin 50)) =
     Inr (NpFloat (farr_formula (Fin 0) (Fin 1) (Fin 100)))"
proof -
  have m: "(50, Fin 0, Fin 1) \<in> set coef_rows" by (simp add: coef_rows_member coef_50)
  have "\<exists>!ab. (50, ab) \<in> set coef_rows"
    using farr1984_ss_table_lookup [THEN conjunct1, rule_format, of 50] by simp
  moreover have "farr1984_ss (PyFloat (Fin 100)) (PyFloat (Fin (of_int 50))) =
      Inr (NpFloat (farr_formula (Fin 0) (Fin 1) (Fin 100)))"
    using farr1984_ss_table_lookup
      [THEN conjunct2, THEN conjunct2, rule_format, OF m, THEN conjunct1] .
  ultimately show ?thesis using m by simp
qed

lemma farr_50:
  "farr1984_ss (PyFloat x) (PyFloat (Fin 50)) =
     Inr (NpFloat (fadd (Fin (9 / 2)) (fmul (Fin 1) (fsub x (Fin (9 / 2))))))"
proof -
  have k: "float_key (Fin 50) = Some 50" using float_key_of_int [of 50] by simp
  have z: "fadd (Fin (9 / 2)) (Fin 0) = Fin (9 / 2)" by (simp add: fadd_def round64_45)
  show ?thesis
    using farr_value [OF k coef_50 disjI1 [OF refl], of "PyFloat x"] by (simp add: z)
qed

text \<open>
  Claim C10 says that \<open>farr1984_ss(height, 50)\<close> is exactly \<open>height\<close> for every
  height. The row of age 50 is indeed \<open>(0, 1)\<close>, but the two roundings of
  \<open>4.5 + (height - 4.5)\<close> lose digits: for the double nearest to 0.1 the result is
  0.09999999999999964.
\<close>

theorem farr1984_ss_reference_age_counterexample:
  "farr1984_ss (PyFloat (round64 (1 / 10))) (PyFloat (Fin 50)) =
     Inr (NpFloat (Fin (56294995342131 / 562949953421312))) \<and>
   round64 (1 / 10) \<noteq> Fin (56294995342131 / 562949953421312)"
  by (simp add: farr_50 round64_tenth fsub_def fadd_def fmul_def round64_tenth_minus
      round64_tenth_minus_idem round64_tenth_back)

text \<open>
  Claim C10, amended. The row of age 50 is \<open>(0, 1)\<close> and \<open>farr1984_ss(height, 50)\<close>
  is \<open>4.5 + 1 * (height - 4.5)\<close> in binary64 arithmetic; it is the height when both
  roundings are exact, as for 100.0.
\<close>

theorem farr1984_ss_reference_age:
  "map_of coef_rows 50 = Some (Fin 0, Fin 1) \<and>
   (\<forall>x. farr1984_ss (PyFloat x) (PyFloat (Fin 50)) =
      Inr (NpFloat (fadd (Fin (9 / 2)) (fmul (Fin 1) (fsub x (Fin (9 / 2))))))) \<and>
   farr1984_ss (PyFloat (Fin 100)) (PyFloat (Fin 50)) = Inr (NpFloat (Fin 100))"
  by (simp add: coef_50 farr_50 fsub_def fadd_def fmul_def round64_191_2 round64_100)

subsection \<open>From the Python functions to the formulas\<close>

text \<open>
  On NumPy scalars and on arrays of one length no operator raises and each function is
  its formula, element by element. On built-in floats the same value is returned unless
  a division by zero or an overflowing power raises first.
\<close>

lemmas op_defs = Add_def Sub_def Mul_def Div_def Pow_def np_log_def np_exp_def np_log10_def
  Powf_def np_where_def bind1_def bind2_def lit_def

lemma king_np:
  "king1966_df (NpFloat h) (NpFloat a) = Inr (NpFloat (king1966_formula h a))"
  by (simp add: king1966_df_def king1966_formula_def king_d1_def king_d2_def op_defs)

lemma wiley_np:
  "wiley1978_wh (NpFloat h) (NpFloat a) = Inr (NpFloat (wiley1978_formula h a))"
  by (simp add: wiley1978_wh_def wiley1978_formula_def wiley_den_def op_defs)

lemma harrington_np:
  "harrington1986_ra (NpFloat h) (NpFloat a) = Inr (NpFloat (harrington1986_formula h a))"
  by (simp add: harrington1986_ra_def harrington1986_formula_def harrington_a_def
      harrington_b_def harrington_poly_a_def harrington_poly_b_def op_defs Let_def)

lemma cochran_np:
  "cochran1979_gf L (NpFloat h) (NpFloat a) = Inr (NpFloat (cochran1979_formula L h a))"
  by (simp add: cochran1979_gf_def cochran1979_formula_def cochran_x1_def cochran_x2_def
      cochran_poly1_def cochran_poly2_def op_defs Let_def)

lemma curtis_np:
  "curtis1974_df L (NpFloat h) (NpFloat a) = Inr (NpFloat (curtis1974_formula L h a))"
  by (simp add: curtis1974_df_def curtis1974_formula_def curtis_a_def curtis_b_def
      curtis_young_a_def curtis_young_b_def curtis_old_a_def curtis_old_b_def
      where3_def op_defs Let_def)



lemma king_py:
  "king1966_df (PyFloat h) (PyFloat a) =
     (if is_finite a \<and> is_inf (fpowi a 2) then Inl OverflowError
      else if is_zero (king_d1 h a) \<or> is_zero (king_d2 a) \<or>
              is_zero (fdiv (fdiv (fpowi a 2) (king_d1 h a)) (king_d2 a))
           then Inl ZeroDivisionError
      else Inr (PyFloat (king1966_formula h a)))"
  by (simp add: king1966_df_def king1966_formula_def king_d1_def king_d2_def op_defs
      float_truediv_def)

lemma wiley_py:
  "wiley1978_wh (PyFloat h) (PyFloat a) =
     (if is_finite a \<and> is_inf (fpowi a 2) then Inl OverflowError
      else if is_zero (wiley_den h a) then Inl ZeroDivisionError
      else Inr (PyFloat (wiley1978_formula h a)))"
  by (simp add: wiley1978_wh_def wiley1978_formula_def wiley_den_def op_defs
      float_truediv_def)




lemma broadcast_same:
  "broadcast np (map f zs) (map g zs) = Inr (NpArray (map (\<lambda>z. np (f z) (g z)) zs))"
  by (simp add: broadcast_def map2_map_map)

lemma where3_arr:
  "where3 (NpBools (map c zs)) (NpArray (map f zs)) (NpArray (map g zs)) =
     Inr (NpArray (map (\<lambda>z. if c z then f z else g z) zs))"
proof -
  have "map (\<lambda>i. if citem (NpBools (map c zs)) i then item (NpArray (map f zs)) i
                  else item (NpArray (map g zs)) i) [0..<length zs] =
        map (\<lambda>z. if c z then f z else g z) zs"
  proof (cases "length zs = 1")
    case True
    then obtain z where "zs = [z]" by (cases zs) auto
    then show ?thesis by simp
  next
    case False
    then show ?thesis by (intro nth_equalityI) simp_all
  qed
  then show ?thesis by (simp add: where3_def)
qed

lemmas arr_simps = broadcast_same where3_arr comp_def

lemma zip_maps:
  assumes "length hs = length as"
  shows "hs = map fst (zip hs as)" and "as = map snd (zip hs as)"
  using assms by simp_all

lemma king_arr:
  assumes "length hs = length as"
  shows "king1966_df (NpArray hs) (NpArray as) = Inr (NpArray (map2 king1966_formula hs as))"
proof -
  define zs where "zs = zip hs as"
  have hs: "hs = map fst zs" and as: "as = map snd zs"
    using zip_maps [OF assms] by (simp_all add: zs_def)
  have "king1966_df (NpArray (map fst zs)) (NpArray (map snd zs)) =
          Inr (NpArray (map (\<lambda>z. king1966_formula (fst z) (snd z)) zs))"
    by (simp add: king1966_df_def king1966_formula_def king_d1_def king_d2_def op_defs
        arr_simps)
  then show ?thesis
    unfolding hs [symmetric] as [symmetric] by (simp add: zs_def case_prod_beta)
qed

lemma wiley_arr:
  assumes "length hs = length as"
  shows "wiley1978_wh (NpArray hs) (NpArray as) = Inr (NpArray (map2 wiley1978_formula hs as))"
proof -
  define zs where "zs = zip hs as"
  have hs: "hs = map fst zs" and as: "as = map snd zs"
    using zip_maps [OF assms] by (simp_all add: zs_def)
  have "wiley1978_wh (NpArray (map fst zs)) (NpArray (map snd zs)) =
          Inr (NpArray (map (\<lambda>z. wiley1978_formula (fst z) (snd z)) zs))"
    by (simp add: wiley1978_wh_def wiley1978_formula_def wiley_den_def op_defs arr_simps)
  then show ?thesis
    unfolding hs [symmetric] as [symmetric] by (simp add: zs_def case_prod_beta)
qed

lemma harrington_arr:
  assumes "length hs = length as"
  shows "harrington1986_ra (NpArray hs) (NpArray as) =
           Inr (NpArray (map2 harrington1986_formula hs as))"
proof -
  define zs where "zs = zip hs as"
  have hs: "hs = map fst zs" and as: "as = map snd zs"
    using zip_maps [OF assms] by (simp_all add: zs_def)
  have "harrington1986_ra (NpArray (map fst zs)) (NpArray (map snd zs)) =
          Inr (NpArray (map (\<lambda>z. harrington1986_formula (fst z) (snd z)) zs))"
    by (simp add: harrington1986_ra_def harrington1986_formula_def harrington_a_def
        harrington_b_def harrington_poly_a_def harrington_poly_b_def op_defs Let_def
        arr_simps)
  then show ?thesis
    unfolding hs [symmetric] as [symmetric] by (simp add: zs_def case_prod_beta)
qed

lemma cochran_arr:
  assumes "length hs = length as"
  shows "cochran1979_gf L (NpArray hs) (NpArray as) =
           Inr (NpArray (map2 (cochran1979_formula L) hs as))"
proof -
  define zs where "zs = zip hs as"
  have hs: "hs = map fst zs" and as: "as = map snd zs"
    using zip_maps [OF assms] by (simp_all add: zs_def)
  have "cochran1979_gf L (NpArray (map fst zs)) (NpArray (map snd zs)) =
          Inr (NpArray (map (\<lambda>z. cochran1979_formula L (fst z) (snd z)) zs))"
    by (simp add: cochran1979_gf_def cochran1979_formula_def cochran_x1_def cochran_x2_def
        cochran_poly1_def cochran_poly2_def op_defs Let_def arr_simps)
  then show ?thesis
    unfolding hs [symmetric] as [symmetric] by (simp add: zs_def case_prod_beta)
qed

lemma curtis_arr:
  assumes "length hs = length as"
  shows "curtis1974_df L (NpArray hs) (NpArray as) =
           Inr (NpArray (map2 (curtis1974_formula L) hs as))"
proof -
  define zs where "zs = zip hs as"
  have hs: "hs = map fst zs" and as: "as = map snd zs"
    using zip_maps [OF assms] by (simp_all add: zs_def)
  have "curtis1974_df L (NpArray (map fst zs)) (NpArray (map snd zs)) =
          Inr (NpArray (map (\<lambda>z. curtis1974_formula L (fst z) (snd z)) zs))"
    by (simp add: curtis1974_df_def curtis1974_formula_def curtis_a_def curtis_b_def
        curtis_young_a_def curtis_young_b_def curtis_old_a_def curtis_old_b_def
        op_defs Let_def arr_simps if_distrib cong: if_cong)
  then show ?thesis
    unfolding hs [symmetric] as [symmetric] by (simp add: zs_def case_prod_beta)
qed

subsection \<open>King 1966 at age zero\<close>

lemma round64_king_c1: "round64 (477019 / 500000) = Fin (8593210362594587 / 9007199254740992)"
  using round64_pos [of "-1" "477019 / 500000" "1 / 2 ^ 53" 8593210362594587]
  by (simp add: pow2_def)

lemma round64_king_s1: "round64 (868780739190359323 / 9007199254740992) = Fin (3393674762462341 / 35184372088832)"
  using round64_pos [of "6" "868780739190359323 / 9007199254740992" "1 / 2 ^ 46" 6787349524924682]
  by (simp add: pow2_def)

lemma round64_king_s1_idem: "round64 (3393674762462341 / 35184372088832) = Fin (3393674762462341 / 35184372088832)"
  using round64_pos [of "6" "3393674762462341 / 35184372088832" "1 / 2 ^ 46" 6787349524924682]
  by (simp add: pow2_def)

lemma round64_king_c2: "round64 (279089 / 5000000) = Fin (2011048186245127 / 36028797018963968)"
  using round64_pos [of "-5" "279089 / 5000000" "1 / 2 ^ 57" 8044192744980508]
  by (simp add: pow2_def)

lemma round64_king_c3: "round64 (733819 / 1000000000) = Fin (6768285644712735 / 9223372036854775808)"
  using round64_pos [of "-11" "733819 / 1000000000" "1 / 2 ^ 63" 6768285644712735]
  by (simp add: pow2_def)

lemma round64_king_c4: "round64 (109757 / 1000000) = Fin (988603168602607 / 9007199254740992)"
  using round64_pos [of "-4" "109757 / 1000000" "1 / 2 ^ 56" 7908825348820856]
  by (simp add: pow2_def)

lemma round64_king_c4_idem: "round64 (988603168602607 / 9007199254740992) = Fin (988603168602607 / 9007199254740992)"
  using round64_pos [of "-4" "988603168602607 / 9007199254740992" "1 / 2 ^ 56" 7908825348820856]
  by (simp add: pow2_def)

lemma round64_king_c5: "round64 (198059 / 25000000) = Fin (2283464802809275 / 288230376151711744)"
  using round64_pos [of "-7" "198059 / 25000000" "1 / 2 ^ 59" 4566929605618550]
  by (simp add: pow2_def)

lemma round64_king_c6: "round64 (197693 / 1000000000) = Fin (7293584352327725 / 36893488147419103232)"
  using round64_pos [of "-13" "197693 / 1000000000" "1 / 2 ^ 65" 7293584352327725]
  by (simp add: pow2_def)

lemma king_d2_0: "king_d2 (Fin 0) = Fin (988603168602607 / 9007199254740992)"
  by (simp add: king_d2_def fpowi_def fmul_def fadd_def zero_of_def round64_king_c4
      round64_king_c4_idem round64_king_c5 round64_king_c6)

lemma king_d1_100_0: "king_d1 (Fin 100) (Fin 0) = Fin (3393674762462341 / 35184372088832)"
  by (simp add: king_d1_def fpowi_def fmul_def fadd_def fsub_def zero_of_def round64_45
      round64_191_2 round64_king_c1 round64_king_s1 round64_king_s1_idem round64_king_c2
      round64_king_c3)

text \<open>
  Claim C1 says that the five closed-form functions never raise and that
  \<open>king1966_df\<close> with \<open>bh_age = 0\<close> returns a non-finite value. With built-in floats
  it does not: \<open>0.0 ** 2 / d1 / d2\<close> is \<open>0.0\<close> and \<^verbatim>\<open>2500 / 0.0\<close> raises
  \<^verbatim>\<open>ZeroDivisionError\<close>.
\<close>

theorem king1966_df_zero_age_counterexample:
  "king1966_df (PyFloat (Fin 100)) (PyFloat (Fin 0)) = Inl ZeroDivisionError"
  by (simp add: king_py king_d1_100_0 king_d2_0 fpowi_def fdiv_def zero_of_def)

lemma round64_2500: "round64 (2500) = Fin (2500)"
  using round64_pos [of "11" "2500" "1 / 2 ^ 41" 5497558138880000]
  by (simp add: pow2_def)

lemma fdiv_zero_num: "fdiv (Fin 0) d = NaN \<or> fdiv (Fin 0) d = Fin 0 \<or> fdiv (Fin 0) d = NegZero"
  by (cases d) (simp_all add: fdiv_def zero_of_def)

lemma king_formula_0_cases:
  "king1966_formula h (Fin 0) = NaN \<or> king1966_formula h (Fin 0) = PInf \<or>
   king1966_formula h (Fin 0) = NInf"
proof -
  have p: "fpowi (Fin 0) 2 = Fin 0" by (simp add: fpowi_def zero_of_def)
  consider "fdiv (Fin 0) (king_d1 h (Fin 0)) = NaN" | "fdiv (Fin 0) (king_d1 h (Fin 0)) = Fin 0"
    | "fdiv (Fin 0) (king_d1 h (Fin 0)) = NegZero"
    using fdiv_zero_num by blast
  then show ?thesis
    by cases
      (simp_all add: king1966_formula_def p king_d2_0 fdiv_def fadd_def zero_of_def inf_of_def
        round64_2500 round64_45)
qed

lemma king_formula_0_not_finite: "\<not> is_finite (king1966_formula h (Fin 0))"
  using king_formula_0_cases [of h] by auto

lemma round64_not_nan: "\<not> is_nan (round64 q)"
  by (simp add: round64_def Let_def)

lemma fadd_not_nan: "\<not> is_nan x \<Longrightarrow> is_finite y \<Longrightarrow> \<not> is_nan (fadd x y)"
  by (cases x; cases y) (simp_all add: fadd_def zero_of_def round64_not_nan)

lemma fsub_not_nan: "\<not> is_nan x \<Longrightarrow> is_finite y \<Longrightarrow> \<not> is_nan (fsub x y)"
  by (cases y) (simp_all add: fsub_def fadd_not_nan)

lemma king_d1_0_not_nan:
  assumes "is_finite h"
  shows "\<not> is_nan (king_d1 h (Fin 0))"
proof -
  have n: "\<not> is_nan h" using assms by (cases h) simp_all
  have z: "fmul (round64 (279089 / 5000000)) (Fin 0) = Fin 0"
    "fmul (round64 (733819 / 1000000000)) (Fin 0) = Fin 0"
    by (simp_all add: fmul_def zero_of_def round64_king_c2 round64_king_c3)
  have p: "fpowi (Fin 0) 2 = Fin 0" by (simp add: fpowi_def zero_of_def)
  show ?thesis
    by (simp add: king_d1_def p z n fadd_not_nan fsub_not_nan round64_45 round64_king_c1)
qed

lemma king_py_zero_age:
  assumes "is_finite h"
  shows "king1966_df (PyFloat h) (PyFloat (Fin 0)) = Inl ZeroDivisionError"
proof -
  have p: "fpowi (Fin 0) 2 = Fin 0" by (simp add: fpowi_def zero_of_def)
  have "is_zero (fdiv (fdiv (Fin 0) (king_d1 h (Fin 0))) (king_d2 (Fin 0)))"
    if "\<not> is_zero (king_d1 h (Fin 0))"
    using that king_d1_0_not_nan [OF assms]
    by (cases "king_d1 h (Fin 0)") (simp_all add: fdiv_def zero_of_def king_d2_0)
  then show ?thesis by (auto simp: king_py p)
qed

text \<open>
  Claim C1, amended. On NumPy values (\<^verbatim>\<open>numpy.float64\<close> scalars, or arrays of one
  length) each of the five functions returns a value, whatever the numbers are, and
  \<open>king1966_df\<close> with \<open>bh_age = 0\<close> returns an infinity or a NaN. On built-in floats
  \<open>king1966_df(height, 0.0)\<close> raises \<^verbatim>\<open>ZeroDivisionError\<close> for every finite height.
\<close>

theorem numpy_inputs_never_raise:
  "(\<exists>v. king1966_df (NpFloat h) (NpFloat a) = Inr (NpFloat v)) \<and>
   (\<exists>v. cochran1979_gf L (NpFloat h) (NpFloat a) = Inr (NpFloat v)) \<and>
   (\<exists>v. wiley1978_wh (NpFloat h) (NpFloat a) = Inr (NpFloat v)) \<and>
   (\<exists>v. harrington1986_ra (NpFloat h) (NpFloat a) = Inr (NpFloat v)) \<and>
   (\<exists>v. curtis1974_df L (NpFloat h) (NpFloat a) = Inr (NpFloat v)) \<and>
   (length hs = length as \<longrightarrow>
      (\<exists>vs. king1966_df (NpArray hs) (NpArray as) = Inr (NpArray vs)) \<and>
      (\<exists>vs. cochran1979_gf L (NpArray hs) (NpArray as) = Inr (NpArray vs)) \<and>
      (\<exists>vs. wiley1978_wh (NpArray hs) (NpArray as) = Inr (NpArray vs)) \<and>
      (\<exists>vs. harrington1986_ra (NpArray hs) (NpArray as) = Inr (NpArray vs)) \<and>
      (\<exists>vs. curtis1974_df L (NpArray hs) (NpArray as) = Inr (NpArray vs))) \<and>
   (\<exists>v. king1966_df (NpFloat h) (NpFloat (Fin 0)) = Inr (NpFloat v) \<and> \<not> is_finite v) \<and>
   (is_finite h \<longrightarrow> king1966_df (PyFloat h) (PyFloat (Fin 0)) = Inl ZeroDivisionError)"
  by (simp add: king_np cochran_np wiley_np harrington_np curtis_np king_arr cochran_arr
      wiley_arr harrington_arr curtis_arr king_formula_0_not_finite king_py_zero_age)

theorem numpy_inputs_never_raise_witness:
  "length [Fin 100, Fin 2] = length [Fin 0, Fin 50] \<and>
   (\<exists>vs. king1966_df (NpArray [Fin 100, Fin 2]) (NpArray [Fin 0, Fin 50]) = Inr (NpArray vs)) \<and>
   is_finite (Fin 100) \<and>
   (\<exists>e. king1966_df (PyFloat (Fin 100)) (PyFloat (Fin 0)) = Inl e)"
  using numpy_inputs_never_raise [of "Fin 100" "Fin 0" L "[Fin 100, Fin 2]" "[Fin 0, Fin 50]"]
  by simp

subsection \<open>Arrays, element by element\<close>

text \<open>
  For the five closed-form functions a call on two arrays of one length gives, at each
  index, what the call on the two elements gives; in \<open>curtis1974_df\<close> the branch is
  chosen for each element.
\<close>

lemma five_functions_elementwise:
  assumes "length hs = length as"
  shows
    "\<exists>rs. king1966_df (NpArray hs) (NpArray as) = Inr (NpArray rs) \<and> length rs = length hs \<and>
       (\<forall>i < length hs. king1966_df (NpFloat (hs ! i)) (NpFloat (as ! i)) = Inr (NpFloat (rs ! i)))"
    and "\<exists>rs. cochran1979_gf L (NpArray hs) (NpArray as) = Inr (NpArray rs) \<and> length rs = length hs \<and>
       (\<forall>i < length hs. cochran1979_gf L (NpFloat (hs ! i)) (NpFloat (as ! i)) = Inr (NpFloat (rs ! i)))"
    and "\<exists>rs. wiley1978_wh (NpArray hs) (NpArray as) = Inr (NpArray rs) \<and> length rs = length hs \<and>
       (\<forall>i < length hs. wiley1978_wh (NpFloat (hs ! i)) (NpFloat (as ! i)) = Inr (NpFloat (rs ! i)))"
    and "\<exists>rs. harrington1986_ra (NpArray hs) (NpArray as) = Inr (NpArray rs) \<and> length rs = length hs \<and>
       (\<forall>i < length hs. harrington1986_ra (NpFloat (hs ! i)) (NpFloat (as ! i)) = Inr (NpFloat (rs ! i)))"
    and "\<exists>rs. curtis1974_df L (NpArray hs) (NpArray as) = Inr (NpArray rs) \<and> length rs = length hs \<and>
       (\<forall>i < length hs. curtis1974_df L (NpFloat (hs ! i)) (NpFloat (as ! i)) = Inr (NpFloat (rs ! i)))"
  using assms
  by (simp_all add: king_arr king_np cochran_arr cochran_np wiley_arr wiley_np harrington_arr
      harrington_np curtis_arr curtis_np)

subsection \<open>Farr 1984 on arrays\<close>

lemma rows_of_domain:
  assumes "farr_domain k"
  shows "\<exists>r. rows_of coef_rows k = [r]"
proof -
  from assms obtain i where i: "float_key k = Some i" "10 \<le> i \<and> i \<le> 150"
    by (auto simp: float_key_domain)
  then have "map_of coef_rows i \<noteq> None" by (simp add: map_of_coef_rows_None)
  then obtain r where "map_of coef_rows i = Some r" by auto
  with i(1) show ?thesis by (simp add: rows_of_coef_rows)
qed

lemma farr_three_ages:
  assumes "farr_domain k1" and "farr_domain k2" and "farr_domain k3"
  shows "farr1984_ss h (NpArray [k1, k2, k3]) = Inl ValueError"
proof -
  obtain r1 where r1: "rows_of coef_rows k1 = [r1]" using rows_of_domain [OF assms(1)] ..
  obtain r2 where r2: "rows_of coef_rows k2 = [r2]" using rows_of_domain [OF assms(2)] ..
  obtain r3 where r3: "rows_of coef_rows k3 = [r3]" using rows_of_domain [OF assms(3)] ..
  have "loc_values coef_rows (NpArray [k1, k2, k3]) = Inl ValueError"
    by (simp add: r1 r2 r3 unpack_rows_def)
  then show ?thesis by (simp add: farr1984_ss_def coefs_eq)
qed

lemma round64_a2_60: "round64 (- (1471 / 500)) = Fin (- (414049690741375 / 140737488355328))"
  using round64_neg [of "1" "1471 / 500" "1 / 2 ^ 51" 6624795051862000]
  by (simp add: pow2_def)

lemma round64_b2_60: "round64 (229 / 250) = Fin (8250594517342749 / 9007199254740992)"
  using round64_pos [of "-1" "229 / 250" "1 / 2 ^ 53" 8250594517342749]
  by (simp add: pow2_def)

lemma round64_farr_p1: "round64 (- (79083490931602625 / 281474976710656)) = Fin (- (1235679545806291 / 4398046511104))"
  using round64_neg [of "8" "79083490931602625 / 281474976710656" "1 / 2 ^ 44" 4942718183225164]
  by (simp add: pow2_def)

lemma round64_farr_v1: "round64 (- (1215888336506323 / 4398046511104)) = Fin (- (1215888336506323 / 4398046511104))"
  using round64_neg [of "8" "1215888336506323 / 4398046511104" "1 / 2 ^ 44" 4863553346025292]
  by (simp add: pow2_def)

lemma round64_11_2: "round64 (11 / 2) = Fin (11 / 2)"
  using round64_pos [of "2" "11 / 2" "1 / 2 ^ 50" 6192449487634432]
  by (simp add: pow2_def)

lemma round64_farr_p2: "round64 (1575863552812465059 / 18014398509481984) = Fin (1538929250793423 / 17592186044416)"
  using round64_pos [of "6" "1575863552812465059 / 18014398509481984" "1 / 2 ^ 46" 6155717003173692]
  by (simp add: pow2_def)

lemma round64_farr_v2: "round64 (1635686274037711 / 17592186044416) = Fin (1635686274037711 / 17592186044416)"
  using round64_pos [of "6" "1635686274037711 / 17592186044416" "1 / 2 ^ 46" 6542745096150844]
  by (simp add: pow2_def)

lemma coef_60: "map_of coef_rows 60 = Some (Fin (- (414049690741375 / 140737488355328)), Fin (8250594517342749 / 9007199254740992))"
  by (simp add: coef_rows_def AGE_LOOKUP_def A2_LOOKUP_def B2_LOOKUP_def round64_a2_60
      round64_b2_60)

lemma rows_50_60:
  "rows_of coef_rows (Fin 50) = [(Fin 0, Fin 1)]"
  "rows_of coef_rows (Fin 60) = [(Fin (- (414049690741375 / 140737488355328)), Fin (8250594517342749 / 9007199254740992))]"
proof -
  have k: "float_key (Fin 50) = Some 50" "float_key (Fin 60) = Some 60"
    using float_key_of_int [of 50] float_key_of_int [of 60] by simp_all
  show "rows_of coef_rows (Fin 50) = [(Fin 0, Fin 1)]"
    by (simp add: rows_of_coef_rows k coef_50)
  show "rows_of coef_rows (Fin 60) = [(Fin (- (414049690741375 / 140737488355328)), Fin (8250594517342749 / 9007199254740992))]"
    by (simp add: rows_of_coef_rows k coef_60)
qed

lemma farr_two_ages:
  "farr1984_ss (NpArray [Fin 100, Fin 100]) (NpArray [Fin 50, Fin 60]) =
     Inr (NpArray [Fin (- (1215888336506323 / 4398046511104)), Fin (1635686274037711 / 17592186044416)])"
proof -
  have l: "loc_values coef_rows (NpArray [Fin 50, Fin 60]) =
             Inr (NpArray [Fin 0, Fin 1], NpArray [Fin (- (414049690741375 / 140737488355328)), Fin (8250594517342749 / 9007199254740992)])"
    by (simp add: rows_50_60 unpack_rows_def)
  show ?thesis
    by (simp add: farr1984_ss_def coefs_eq l op_defs broadcast_def fadd_def fsub_def fmul_def
        round64_45 round64_191_2 round64_11_2 round64_farr_p1 round64_farr_v1
        round64_farr_p2 round64_farr_v2 del: loc_values.simps)
qed

text \<open>
  Claim C2 asks that each of the six functions, applied to two vectors of N values, gives
  the N results of the N scalar calls. The five closed-form functions do (lemma
  \<open>five_functions_elementwise\<close>). \<open>farr1984_ss\<close> does not: its assignment
  \<^verbatim>\<open>a2, b2 = coefs.loc[bh_age].values\<close> unpacks the rows that were looked up. With
  three ages (each in the table, each accepted alone) it raises \<^verbatim>\<open>ValueError\<close>; with two
  ages \<open>a2\<close> and \<open>b2\<close> are the two rows, and for heights \<open>[100, 100]\<close> and ages
  \<open>[50, 60]\<close> the result is \<open>[-276.461, 92.978...]\<close>, where the scalar call for
  \<open>(100, 50)\<close> gives \<open>100\<close>.
\<close>

theorem farr1984_ss_vector_fails:
  "farr1984_ss (NpArray [Fin 100, Fin 100, Fin 100]) (NpArray [Fin 50, Fin 60, Fin 70]) =
     Inl ValueError \<and>
   (\<exists>v. farr1984_ss (NpFloat (Fin 100)) (NpFloat (Fin 50)) = Inr v) \<and>
   (\<exists>v. farr1984_ss (NpFloat (Fin 100)) (NpFloat (Fin 60)) = Inr v) \<and>
   (\<exists>v. farr1984_ss (NpFloat (Fin 100)) (NpFloat (Fin 70)) = Inr v) \<and>
   farr1984_ss (NpArray [Fin 100, Fin 100]) (NpArray [Fin 50, Fin 60]) =
     Inr (NpArray [Fin (- (1215888336506323 / 4398046511104)), Fin (1635686274037711 / 17592186044416)]) \<and>
   farr1984_ss (NpFloat (Fin 100)) (NpFloat (Fin 50)) = Inr (NpFloat (Fin 100))"
proof -
  have d: "farr_domain (Fin 50)" "farr_domain (Fin 60)" "farr_domain (Fin 70)"
    by (simp_all add: farr_domain_def)
  note a = farr_three_ages [OF d, of "NpArray [Fin 100, Fin 100, Fin 100]"]
  note b = farr_returns [OF d(1) disjI2 [OF refl], of "NpFloat (Fin 100)"]
    farr_returns [OF d(2) disjI2 [OF refl], of "NpFloat (Fin 100)"]
    farr_returns [OF d(3) disjI2 [OF refl], of "NpFloat (Fin 100)"]
  have k: "float_key (Fin 50) = Some 50" using float_key_of_int [of 50] by simp
  have c: "farr1984_ss (NpFloat (Fin 100)) (NpFloat (Fin 50)) = Inr (NpFloat (Fin 100))"
    using farr_value [OF k coef_50 disjI2 [OF refl], of "NpFloat (Fin 100)"]
    by (simp add: fadd_def fsub_def fmul_def round64_45 round64_191_2 round64_100)
  show ?thesis by (intro conjI a b c farr_two_ages)
qed

subsection \<open>Rounding a tie\<close>


lemma round64_neg_tie:
  assumes "pow2 e \<le> a" and "a < pow2 (e + 1)"
    and "u = pow2 (max e (- 1022) - 52)"
    and "a / u = of_int f + 1 / 2" and "m = (if even f then f else f + 1)"
    and "0 < m" and "of_int m * u < pow2 1024"
  shows "round64 (- a) = Fin (- (of_int m * u))"
proof -
  have apos: "0 < a" using assms(1) pow2_pos [of e] by linarith
  have i: "ilog2 a = e" using assms(1,2) by (rule ilog2_eq)
  have r: "rne (a / u) = m" using rne_tie [OF assms(4)] assms(5) by simp
  have upos: "0 < u" using assms(3) pow2_pos by simp
  have z: "of_int m * u \<noteq> 0" using assms(6) upos by simp
  have n: "\<not> pow2 1024 \<le> of_int m * u" using assms(7) by simp
  show ?thesis using apos i r assms(3) n z
    by (simp add: round64_def Let_def del: mult_eq_0_iff)
qed

subsection \<open>King 1966\<close>


























subsection \<open>Harrington and Curtis 1986\<close>






























subsection \<open>Curtis, Herman and DeMars 1974\<close>





























subsection \<open>Cochran 1979\<close>






end
